theory Spec2Isabelle
  imports Main "HOL-Library.Char_ord" "HOL-Library.List_Lexorder" "HOL-Library.Word"
begin

section \<open>RoboSim API: episode conversion (src/api/main.py)\<close>

text \<open>
  The two endpoints of \<^verbatim>\<open>src/api/main.py\<close> turn a list of recorded episodes into a
  column table: \<^verbatim>\<open>upload_dataset\<close> writes the table and its sidecar files,
  \<^verbatim>\<open>convert_to_parquet\<close> returns the encoded table. Both are modelled here as
  functions of the request. What the code leaves to a library is a parameter of the model:
  the Arrow constructors (\<^verbatim>\<open>pa.array\<close>, \<^verbatim>\<open>pa.table\<close> with
  \<^verbatim>\<open>pq.write_table\<close>), the iteration order of a Python \<^verbatim>\<open>set\<close> and the
  text of an exception (\<^verbatim>\<open>str(e)\<close>).

  The request has the types of its pydantic classes. Where those say only
  \<^verbatim>\<open>dict\<close>, the model takes the shape the code reads: a frame has an optional
  timestamp and two optional bags, a bag maps names to vectors of numbers or to text, and
  the task text under \<^verbatim>\<open>languageInstruction\<close> is a string.
\<close>

subsection \<open>Values\<close>

text \<open>
  Floating-point numbers are never computed with: the model records where a float comes
  from. \<open>Float_lit m e\<close> is a double received in the request (\<open>m * 2^e\<close>),
  \<open>Float_of_int i\<close> is \<^verbatim>\<open>float(i)\<close> and \<open>Div_30 n\<close> is \<^verbatim>\<open>n / 30.0\<close>.
\<close>

datatype pyfloat = Float_lit int int | Float_of_int int | Div_30 nat

text \<open>A JSON number is an integer or a float.\<close>

datatype number = NInt int | NFloat pyfloat

text \<open>
  \<^verbatim>\<open>float(v)\<close> on a number. An integer is rounded to the nearest double, ties to
  even; one that rounds to \<open>2^1024\<close> or beyond, that is one of absolute value at least
  \<open>2^1024 - 2^970\<close>, raises \<^verbatim>\<open>OverflowError\<close>. \<open>Inl\<close> is the text of the exception.
\<close>

definition float_overflows :: "int \<Rightarrow> bool" where
  "float_overflows i = (2 ^ 1024 - 2 ^ 970 \<le> \<bar>i\<bar>)"

fun py_float :: "number \<Rightarrow> string + pyfloat" where
  "py_float (NInt i) =
     (if float_overflows i then Inl ''int too large to convert to float''
      else Inr (Float_of_int i))"
| "py_float (NFloat x) = Inr x"

text \<open>\<^verbatim>\<open>[float(v) for v in val]\<close>: the first element that raises ends the list.\<close>

fun float_list :: "number list \<Rightarrow> string + pyfloat list" where
  "float_list [] = Inr []"
| "float_list (v # vs) =
     (case py_float v of
        Inl msg \<Rightarrow> Inl msg
      | Inr x \<Rightarrow> (case float_list vs of Inl msg \<Rightarrow> Inl msg | Inr xs \<Rightarrow> Inr (x # xs)))"

text \<open>
  A \<^verbatim>\<open>for\<close> loop whose body may raise: the loop ends at the first exception, with
  its text.
\<close>

fun for_each :: "('s \<Rightarrow> 'a \<Rightarrow> string + 's) \<Rightarrow> 's \<Rightarrow> 'a list \<Rightarrow> string + 's" where
  "for_each body s [] = Inr s"
| "for_each body s (x # xs) =
     (case body s x of Inl msg \<Rightarrow> Inl msg | Inr s' \<Rightarrow> for_each body s' xs)"

text \<open>
  An entry of an observation or action bag: a numeric vector (a Python list) or a text
  blob (an encoded image).
\<close>

datatype entry = Vector "number list" | Text string

text \<open>\<^verbatim>\<open>len(v)\<close> on an entry.\<close>

fun py_len :: "entry \<Rightarrow> nat" where
  "py_len (Vector xs) = length xs"
| "py_len (Text s) = length s"

type_synonym bag = "string \<rightharpoonup> entry"

text \<open>
  A frame is a dict with the keys of the class \<^verbatim>\<open>EpisodeFrame\<close>; the code reads each
  of them with \<^verbatim>\<open>frame.get(key, default)\<close>, so each may be absent.
\<close>

record frame =
  timestamp :: "number option"
  observation :: "bag option"
  action :: "bag option"

record episode =
  episodeIndex :: int
  frames :: "frame list"
  metadata :: "string \<rightharpoonup> string"

record dataset_metadata =
  robotType :: string
  totalFrames :: int
  totalEpisodes :: int
  fps :: int

record upload_request =
  episodes :: "episode list"
  request_metadata :: dataset_metadata
  repoName :: string

text \<open>The only exception the endpoints raise: a status code and a detail text.\<close>

datatype error = HTTPException nat string

subsection \<open>Rows\<close>

text \<open>
  A row is the dict built for one frame. Its first four keys are always present (the
  direct conversion sets no \<^verbatim>\<open>task_index\<close>), the other three only when the frame
  has the entry.
\<close>

record row =
  episode_index :: int
  frame_index :: nat
  row_timestamp :: number
  task_index :: "int option"
  observation_state :: "entry option"
  observation_image :: "entry option"
  row_action :: "entry option"

text \<open>A value stored in a row, and the row read as a dict: \<^verbatim>\<open>row.get(name)\<close>.\<close>

datatype pyval = Scalar number | Field entry

definition row_get :: "row \<Rightarrow> string \<Rightarrow> pyval option" where
  "row_get r name =
     (if name = ''episode_index'' then Some (Scalar (NInt (episode_index r)))
      else if name = ''frame_index'' then Some (Scalar (NInt (int (frame_index r))))
      else if name = ''timestamp'' then Some (Scalar (row_timestamp r))
      else if name = ''task_index'' then map_option (\<lambda>i. Scalar (NInt i)) (task_index r)
      else if name = ''observation.state'' then map_option Field (observation_state r)
      else if name = ''observation.image'' then map_option Field (observation_image r)
      else if name = ''action'' then map_option Field (row_action r)
      else None)"

text \<open>\<^verbatim>\<open>frame.get("observation", {})\<close> and \<^verbatim>\<open>frame.get("action", {})\<close>.\<close>

definition obs_of :: "frame \<Rightarrow> bag" where
  "obs_of f = (case observation f of Some b \<Rightarrow> b | None \<Rightarrow> Map.empty)"

definition action_of :: "frame \<Rightarrow> bag" where
  "action_of f = (case action f of Some b \<Rightarrow> b | None \<Rightarrow> Map.empty)"

text \<open>\<^verbatim>\<open>frame.get("timestamp", frame_idx / 30.0)\<close>.\<close>

definition timestamp_of :: "nat \<Rightarrow> frame \<Rightarrow> number" where
  "timestamp_of frame_idx f =
     (case timestamp f of Some t \<Rightarrow> t | None \<Rightarrow> NFloat (Div_30 frame_idx))"

text \<open>The row of \<^verbatim>\<open>upload_dataset\<close> (lines 141-162).\<close>

definition upload_row :: "int \<Rightarrow> nat \<Rightarrow> frame \<Rightarrow> row" where
  "upload_row ep_idx frame_idx f =
     (let obs = obs_of f; act = action_of f in
      \<lparr> episode_index = ep_idx,
        frame_index = frame_idx,
        row_timestamp = timestamp_of frame_idx f,
        task_index = Some 0,
        observation_state = obs ''jointPositions'',
        observation_image = obs ''image'',
        row_action =
          (case act ''jointPositions'' of
             Some v \<Rightarrow> Some v
           | None \<Rightarrow> act ''targetPositions'') \<rparr>)"

text \<open>The row of \<^verbatim>\<open>convert_to_parquet\<close> (lines 329-341).\<close>

definition convert_row :: "int \<Rightarrow> nat \<Rightarrow> frame \<Rightarrow> row" where
  "convert_row ep_idx frame_idx f =
     (let obs = obs_of f; act = action_of f in
      \<lparr> episode_index = ep_idx,
        frame_index = frame_idx,
        row_timestamp = timestamp_of frame_idx f,
        task_index = None,
        observation_state = obs ''jointPositions'',
        observation_image = None,
        row_action = act ''jointPositions'' \<rparr>)"

text \<open>
  The inner loop \<^verbatim>\<open>for frame_idx, frame in enumerate(episode.frames)\<close>: the rows one
  episode appends, in order.
\<close>

definition episode_rows :: "(int \<Rightarrow> nat \<Rightarrow> frame \<Rightarrow> row) \<Rightarrow> episode \<Rightarrow> row list" where
  "episode_rows mk ep =
     map (\<lambda>(frame_idx, f). mk (episodeIndex ep) frame_idx f) (enumerate 0 (frames ep))"

subsection \<open>The upload loop\<close>

text \<open>\<^verbatim>\<open>episode.metadata.get("languageInstruction", "manipulation task")\<close>.\<close>

definition task_of :: "episode \<Rightarrow> string" where
  "task_of ep =
     (case metadata ep ''languageInstruction'' of
        Some t \<Rightarrow> t
      | None \<Rightarrow> ''manipulation task'')"

text \<open>A line of \<^verbatim>\<open>meta/episodes.jsonl\<close>.\<close>

record episode_meta =
  em_episode_index :: int
  em_tasks :: "string list"
  em_length :: nat

text \<open>
  The three accumulators of lines 125-127. \<^verbatim>\<open>tasks\<close> is a Python \<^verbatim>\<open>set\<close>:
  a set of strings, with no order of its own.
\<close>

record upload_state =
  all_rows :: "row list"
  episode_metadata :: "episode_meta list"
  tasks :: "string set"

definition upload_init :: upload_state where
  "upload_init = \<lparr> all_rows = [], episode_metadata = [], tasks = {} \<rparr>"

text \<open>One turn of \<^verbatim>\<open>for episode in request.episodes\<close> (lines 129-164).\<close>

definition upload_episode :: "upload_state \<Rightarrow> episode \<Rightarrow> upload_state" where
  "upload_episode s ep =
     (let ep_idx = episodeIndex ep; task = task_of ep in
      \<lparr> all_rows = all_rows s @ episode_rows upload_row ep,
        episode_metadata = episode_metadata s @
          [\<lparr> em_episode_index = ep_idx, em_tasks = [task], em_length = length (frames ep) \<rparr>],
        tasks = insert task (tasks s) \<rparr>)"

definition upload_loop :: "episode list \<Rightarrow> upload_state" where
  "upload_loop eps = foldl upload_episode upload_init eps"

text \<open>\<^verbatim>\<open>sum(len(ep.frames) for ep in request.episodes)\<close>.\<close>

definition total_frames_of :: "episode list \<Rightarrow> nat" where
  "total_frames_of eps = sum_list (map (\<lambda>ep. length (frames ep)) eps)"

subsection \<open>info.json\<close>

text \<open>\<^verbatim>\<open>str(n)\<close> for a length: the decimal digits.\<close>

definition digit_char :: "nat \<Rightarrow> char" where
  "digit_char d = ''0123456789'' ! d"

fun str_nat :: "nat \<Rightarrow> string" where
  "str_nat n = (if n < 10 then [digit_char n] else str_nat (n div 10) @ [digit_char (n mod 10)])"

declare str_nat.simps [simp del]

record feature =
  dtype :: string
  shape :: "nat list"
  names :: "string list"

record info =
  codebase_version :: string
  robot_type :: string
  info_fps :: int
  total_episodes :: nat
  total_frames :: nat
  feature_observation_state :: feature
  feature_action :: feature
  splits_train :: string

definition joint_names :: "string list" where
  "joint_names = [''joint_1'', ''joint_2'', ''joint_3'', ''joint_4'', ''joint_5'', ''gripper'']"

text \<open>
  \<^verbatim>\<open>[len(all_rows[0].get(key, []))] if all_rows else [6]\<close>, with the row's entry
  under \<^verbatim>\<open>key\<close> given by \<open>get\<close>.
\<close>

definition shape_of :: "(row \<Rightarrow> entry option) \<Rightarrow> row list \<Rightarrow> nat list" where
  "shape_of get rows =
     (case rows of
        [] \<Rightarrow> [6]
      | r # _ \<Rightarrow> [case get r of Some v \<Rightarrow> py_len v | None \<Rightarrow> 0])"

text \<open>The dict \<^verbatim>\<open>info\<close> of lines 219-238.\<close>

definition make_info :: "upload_request \<Rightarrow> row list \<Rightarrow> info" where
  "make_info request rows =
     \<lparr> codebase_version = ''v3.0'',
       robot_type = robotType (request_metadata request),
       info_fps = fps (request_metadata request),
       total_episodes = length (episodes request),
       total_frames = total_frames_of (episodes request),
       feature_observation_state =
         \<lparr> dtype = ''float32'', shape = shape_of observation_state rows, names = joint_names \<rparr>,
       feature_action =
         \<lparr> dtype = ''float32'', shape = shape_of row_action rows, names = joint_names \<rparr>,
       splits_train = ''0:'' @ str_nat (length (episodes request)) \<rparr>"

subsection \<open>tasks.jsonl\<close>

text \<open>
  Lines 249-251 write one line per element of \<^verbatim>\<open>enumerate(tasks)\<close>. Python does
  not fix the order in which a \<^verbatim>\<open>set\<close> of strings is iterated (it follows the
  strings' hashes, which are salted per process), so the order is the parameter
  \<open>set_iter\<close>. All Python promises is that each element comes exactly once.
\<close>

definition tasks_jsonl :: "(string set \<Rightarrow> string list) \<Rightarrow> string set \<Rightarrow> (nat \<times> string) list" where
  "tasks_jsonl set_iter ts = enumerate 0 (set_iter ts)"

definition iteration_order :: "(string set \<Rightarrow> string list) \<Rightarrow> bool" where
  "iteration_order set_iter =
     (\<forall>S. finite S \<longrightarrow> set (set_iter S) = S \<and> distinct (set_iter S))"

text \<open>Two iteration orders, for concrete runs: ascending and descending.\<close>

definition ascending :: "string set \<Rightarrow> string list" where
  "ascending S = sorted_list_of_set S"

definition descending :: "string set \<Rightarrow> string list" where
  "descending S = rev (sorted_list_of_set S)"

subsection \<open>Schema and columns of the upload\<close>

datatype field_type = int64 | float64 | list_float32 nat

text \<open>Lines 169-183: the schema, with the vector fields of the first row.\<close>

definition schema_fields_of :: "row \<Rightarrow> (string \<times> field_type) list" where
  "schema_fields_of sample_row =
     (let schema_fields =
            [(''episode_index'', int64), (''frame_index'', int64),
             (''timestamp'', float64), (''task_index'', int64)];
          schema_fields =
            (case observation_state sample_row of
               Some v \<Rightarrow> schema_fields @ [(''observation.state'', list_float32 (py_len v))]
             | None \<Rightarrow> schema_fields);
          schema_fields =
            (case row_action sample_row of
               Some v \<Rightarrow> schema_fields @ [(''action'', list_float32 (py_len v))]
             | None \<Rightarrow> schema_fields)
      in schema_fields)"

text \<open>An entry of a column. \<open>Null\<close> is Python's \<^verbatim>\<open>None\<close>.\<close>

datatype cell = Null | Scalar_cell number | Floats "pyfloat list" | Text_cell string

text \<open>
  Lines 190-195: a list is converted element by element, which may raise; anything else
  is kept.
\<close>

fun convert_val :: "pyval \<Rightarrow> string + cell" where
  "convert_val (Field (Vector xs)) =
     (case float_list xs of Inl msg \<Rightarrow> Inl msg | Inr fs \<Rightarrow> Inr (Floats fs))"
| "convert_val (Field (Text s)) = Inr (Text_cell s)"
| "convert_val (Scalar n) = Inr (Scalar_cell n)"

text \<open>Lines 189-197: what one row appends to the column \<open>field_name\<close>.\<close>

definition cell_of :: "row \<Rightarrow> string \<Rightarrow> string + cell" where
  "cell_of r field_name =
     (case row_get r field_name of Some val \<Rightarrow> convert_val val | None \<Rightarrow> Inr Null)"

type_synonym columns = "string \<rightharpoonup> cell list"

text \<open>Line 186: \<^verbatim>\<open>{field[0]: [] for field in schema_fields}\<close>.\<close>

definition empty_columns :: "(string \<times> field_type) list \<Rightarrow> columns" where
  "empty_columns schema_fields = map_of (map (\<lambda>field. (fst field, [])) schema_fields)"

text \<open>
  \<^verbatim>\<open>columns[field_name].append(...)\<close>. The key is always there, since the same
  \<^verbatim>\<open>schema_fields\<close> made the dict.
\<close>

definition append_cell :: "row \<Rightarrow> columns \<Rightarrow> string \<times> field_type \<Rightarrow> string + columns" where
  "append_cell r cols field =
     (case cols (fst field) of
        Some col \<Rightarrow>
          (case cell_of r (fst field) of
             Inl msg \<Rightarrow> Inl msg
           | Inr c \<Rightarrow> Inr (cols(fst field \<mapsto> col @ [c])))
      | None \<Rightarrow> Inr cols)"

text \<open>Lines 187-197: for each row, for each field.\<close>

definition build_columns :: "(string \<times> field_type) list \<Rightarrow> row list \<Rightarrow> string + columns" where
  "build_columns schema_fields rows =
     for_each (\<lambda>cols r. for_each (append_cell r) cols schema_fields)
       (empty_columns schema_fields) rows"

text \<open>
  Lines 200-212. \<open>pa_array\<close> is \<^verbatim>\<open>pa.array(values, type=field_type)\<close>: it returns
  the array, or \<open>Inl\<close> the text of the exception it raises. The table is the dict of
  names and arrays.
\<close>

fun build_arrays ::
  "(cell list \<Rightarrow> field_type \<Rightarrow> string + 'arr) \<Rightarrow> columns \<Rightarrow> (string \<times> field_type) list
     \<Rightarrow> string + (string \<times> 'arr) list" where
  "build_arrays pa_array cols [] = Inr []"
| "build_arrays pa_array cols ((field_name, field_type) # rest) =
     (case cols field_name of
        None \<Rightarrow> build_arrays pa_array cols rest
      | Some col \<Rightarrow>
          if col = [] then build_arrays pa_array cols rest
          else
            (case pa_array col field_type of
               Inl msg \<Rightarrow> Inl msg
             | Inr arr \<Rightarrow>
                 (case build_arrays pa_array cols rest of
                    Inl msg \<Rightarrow> Inl msg
                  | Inr t \<Rightarrow> Inr ((field_name, arr) # t))))"


text \<open>Lines 167-216: no table when there is no row.\<close>

definition upload_table ::
  "(cell list \<Rightarrow> field_type \<Rightarrow> string + 'arr) \<Rightarrow> row list \<Rightarrow> string + (string \<times> 'arr) list option" where
  "upload_table pa_array rows =
     (case rows of
        [] \<Rightarrow> Inr None
      | sample_row # _ \<Rightarrow>
          (let schema_fields = schema_fields_of sample_row in
           case build_columns schema_fields rows of
             Inl msg \<Rightarrow> Inl msg
           | Inr cols \<Rightarrow>
               (case build_arrays pa_array cols schema_fields of
                  Inl msg \<Rightarrow> Inl msg
                | Inr t \<Rightarrow> Inr (Some t))))"

subsection \<open>The upload conversion\<close>

text \<open>The files handed to the upload: the table, if any, and the three sidecar files.\<close>

record 'arr dataset_files =
  parquet :: "(string \<times> 'arr) list option"
  info_json :: info
  episodes_jsonl :: "episode_meta list"
  tasks_lines :: "(nat \<times> string) list"

text \<open>
  Lines 117-292 of \<^verbatim>\<open>upload_dataset\<close>, under its handler
  \<^verbatim>\<open>except Exception as e: raise HTTPException(status_code=500, detail=str(e))\<close>.
  The calls before and after it (the token check, the creation of the repository, the
  upload of the folder) and the text of \<^verbatim>\<open>README.md\<close> are left out; writing a file
  is taken to succeed.
\<close>

definition upload_convert ::
  "(cell list \<Rightarrow> field_type \<Rightarrow> string + 'arr) \<Rightarrow> (string set \<Rightarrow> string list) \<Rightarrow> upload_request
     \<Rightarrow> error + 'arr dataset_files" where
  "upload_convert pa_array set_iter request =
     (let s = upload_loop (episodes request) in
      case upload_table pa_array (all_rows s) of
        Inl msg \<Rightarrow> Inl (HTTPException 500 msg)
      | Inr table \<Rightarrow>
          Inr \<lparr> parquet = table,
                info_json = make_info request (all_rows s),
                episodes_jsonl = episode_metadata s,
                tasks_lines = tasks_jsonl set_iter (tasks s) \<rparr>)"

subsection \<open>The direct conversion\<close>

text \<open>Lines 323-343.\<close>

definition convert_loop :: "episode list \<Rightarrow> row list" where
  "convert_loop eps = foldl (\<lambda>rows ep. rows @ episode_rows convert_row ep) [] eps"

text \<open>\<^verbatim>\<open>r.get(key, [])\<close>: an absent vector is the empty list.\<close>

definition get_or_empty :: "entry option \<Rightarrow> pyval" where
  "get_or_empty v = (case v of Some e \<Rightarrow> Field e | None \<Rightarrow> Field (Vector []))"

text \<open>Lines 349-358.\<close>

definition convert_columns :: "row list \<Rightarrow> row \<Rightarrow> (string \<rightharpoonup> pyval list)" where
  "convert_columns rows first_row =
     (let cols =
            [''episode_index'' \<mapsto> map (\<lambda>r. Scalar (NInt (episode_index r))) rows,
             ''frame_index'' \<mapsto> map (\<lambda>r. Scalar (NInt (int (frame_index r)))) rows,
             ''timestamp'' \<mapsto> map (\<lambda>r. Scalar (row_timestamp r)) rows];
          cols =
            (if observation_state first_row \<noteq> None
             then cols(''observation.state'' \<mapsto> map (\<lambda>r. get_or_empty (observation_state r)) rows)
             else cols);
          cols =
            (if row_action first_row \<noteq> None
             then cols(''action'' \<mapsto> map (\<lambda>r. get_or_empty (row_action r)) rows)
             else cols)
      in cols)"

text \<open>\<^verbatim>\<open>bytes.hex()\<close>: two lowercase hexadecimal digits for each byte.\<close>

definition hex_alphabet :: string where
  "hex_alphabet = ''0123456789abcdef''"

definition hex_digit :: "nat \<Rightarrow> char" where
  "hex_digit d = hex_alphabet ! d"

definition hex_byte :: "8 word \<Rightarrow> string" where
  "hex_byte b = [hex_digit (unat b div 16), hex_digit (unat b mod 16)]"

definition hex :: "8 word list \<Rightarrow> string" where
  "hex bs = concat (map hex_byte bs)"

record convert_response =
  success :: bool
  parquet_base64 :: string
  num_rows :: nat

text \<open>What the body of a \<^verbatim>\<open>try\<close> raises: an \<^verbatim>\<open>HTTPException\<close>, or another exception, kept as its text.\<close>

datatype raised = Http error | Other string

text \<open>
  Lines 322-371, before the handler. \<open>write_table\<close> is \<^verbatim>\<open>pa.table(columns)\<close>
  followed by \<^verbatim>\<open>pq.write_table\<close> into the buffer: the bytes, or \<open>Inl\<close> the text of
  the exception raised.
\<close>

definition convert_body ::
  "((string \<rightharpoonup> pyval list) \<Rightarrow> string + 8 word list) \<Rightarrow> episode list \<Rightarrow> raised + convert_response" where
  "convert_body write_table eps =
     (let rows = convert_loop eps in
      case rows of
        [] \<Rightarrow> Inl (Http (HTTPException 400 ''No frames to convert''))
      | first_row # _ \<Rightarrow>
          (case write_table (convert_columns rows first_row) of
             Inl msg \<Rightarrow> Inl (Other msg)
           | Inr bytes \<Rightarrow>
               Inr \<lparr> success = True, parquet_base64 = hex bytes, num_rows = length rows \<rparr>))"

text \<open>
  Lines 373-374: \<^verbatim>\<open>except Exception as e: raise HTTPException(status_code=500, detail=str(e))\<close>.
  An \<^verbatim>\<open>HTTPException\<close> is an \<^verbatim>\<open>Exception\<close>, so the handler catches the one
  of line 346 too; \<open>exc_str\<close> is \<^verbatim>\<open>str\<close> on it.
\<close>

text \<open>
  The handlers of \<^verbatim>\<open>upload_dataset\<close>, lines 310-313, for comparison:
  \<^verbatim>\<open>except HTTPException: raise\<close> comes first there, so an
  \<^verbatim>\<open>HTTPException\<close> leaves the endpoint as it was raised.
\<close>

definition upload_handlers :: "raised + 'a \<Rightarrow> error + 'a" where
  "upload_handlers result =
     (case result of
        Inl (Http e) \<Rightarrow> Inl e
      | Inl (Other msg) \<Rightarrow> Inl (HTTPException 500 msg)
      | Inr v \<Rightarrow> Inr v)"

definition convert_to_parquet ::
  "(error \<Rightarrow> string) \<Rightarrow> ((string \<rightharpoonup> pyval list) \<Rightarrow> string + 8 word list) \<Rightarrow> episode list
     \<Rightarrow> error + convert_response" where
  "convert_to_parquet exc_str write_table eps =
     (case convert_body write_table eps of
        Inl (Http e) \<Rightarrow> Inl (HTTPException 500 (exc_str e))
      | Inl (Other msg) \<Rightarrow> Inl (HTTPException 500 msg)
      | Inr response \<Rightarrow> Inr response)"

subsection \<open>Concrete runs\<close>

text \<open>
  Inputs for the worked examples below. Two functions take the place of
  \<^verbatim>\<open>pa.array\<close>: \<open>accept_array\<close> takes any column, and \<open>length_checking text\<close>
  raises, with the given text, on a fixed-size list column that holds a list of another
  length, and takes any other column. \<open>magic_writer\<close> is a writer whose file is the four
  bytes \<^verbatim>\<open>PAR1\<close>.
\<close>

definition accept_array :: "cell list \<Rightarrow> field_type \<Rightarrow> string + field_type \<times> cell list" where
  "accept_array col ty = Inr (ty, col)"

fun wrong_length :: "nat \<Rightarrow> cell \<Rightarrow> bool" where
  "wrong_length n (Floats xs) = (length xs \<noteq> n)"
| "wrong_length n c = False"

fun length_checking ::
  "string \<Rightarrow> cell list \<Rightarrow> field_type \<Rightarrow> string + field_type \<times> cell list" where
  "length_checking text col (list_float32 n) =
     (if list_ex (wrong_length n) col then Inl text else Inr (list_float32 n, col))"
| "length_checking text col ty = Inr (ty, col)"

definition frame_plain :: frame where
  "frame_plain = \<lparr> timestamp = None, observation = None, action = None \<rparr>"

definition frame_of :: "bag \<Rightarrow> bag \<Rightarrow> frame" where
  "frame_of obs act = \<lparr> timestamp = None, observation = Some obs, action = Some act \<rparr>"

definition episode_pick :: episode where
  "episode_pick =
     \<lparr> episodeIndex = 0, frames = [frame_plain],
       metadata = [''languageInstruction'' \<mapsto> ''pick''] \<rparr>"

definition episode_place :: episode where
  "episode_place =
     \<lparr> episodeIndex = 1, frames = [frame_plain, frame_plain],
       metadata = [''languageInstruction'' \<mapsto> ''place''] \<rparr>"

definition request_of :: "episode list \<Rightarrow> upload_request" where
  "request_of eps =
     \<lparr> episodes = eps,
       request_metadata = \<lparr> robotType = ''so101'', totalFrames = 0, totalEpisodes = 0, fps = 30 \<rparr>,
       repoName = ''demo'' \<rparr>"

definition frame_both :: frame where
  "frame_both =
     frame_of Map.empty
       [''jointPositions'' \<mapsto> Vector [NInt 1], ''targetPositions'' \<mapsto> Vector [NInt 2]]"

definition frame_target :: frame where
  "frame_target = frame_of Map.empty [''targetPositions'' \<mapsto> Vector [NInt 2]]"


definition frame_state :: "number list \<Rightarrow> frame" where
  "frame_state xs = frame_of [''jointPositions'' \<mapsto> Vector xs] Map.empty"

definition episode_mismatch :: episode where
  "episode_mismatch =
     \<lparr> episodeIndex = 0,
       frames = [frame_state [NInt 1, NInt 2, NInt 3, NInt 4, NInt 5, NInt 6],
                 frame_state [NInt 1, NInt 2, NInt 3, NInt 4, NInt 5]],
       metadata = Map.empty \<rparr>"

definition episode_match :: episode where
  "episode_match =
     \<lparr> episodeIndex = 0, frames = [frame_state [NInt 1, NInt 2], frame_state [NInt 3, NInt 4]],
       metadata = Map.empty \<rparr>"

definition episode_huge :: episode where
  "episode_huge =
     \<lparr> episodeIndex = 0, frames = [frame_state [NInt (2 ^ 1024)]], metadata = Map.empty \<rparr>"

definition episode_gap :: episode where
  "episode_gap =
     \<lparr> episodeIndex = 0, frames = [frame_state [NInt 1], frame_plain], metadata = Map.empty \<rparr>"

section \<open>Properties\<close>

subsection \<open>The loops as lists\<close>

lemma foldl_upload_episode:
  "all_rows (foldl upload_episode s eps) = all_rows s @ concat (map (episode_rows upload_row) eps)
   \<and> tasks (foldl upload_episode s eps) = tasks s \<union> task_of ` set eps
   \<and> episode_metadata (foldl upload_episode s eps) =
       episode_metadata s @
       map (\<lambda>ep. \<lparr> em_episode_index = episodeIndex ep, em_tasks = [task_of ep],
                    em_length = length (frames ep) \<rparr>) eps"
  by (induction eps arbitrary: s) (auto simp: upload_episode_def Let_def)

lemma all_rows_upload_loop:
  "all_rows (upload_loop eps) = concat (map (episode_rows upload_row) eps)"
  by (simp add: upload_loop_def foldl_upload_episode upload_init_def)

lemma tasks_upload_loop: "tasks (upload_loop eps) = task_of ` set eps"
  by (simp add: upload_loop_def foldl_upload_episode upload_init_def)

lemma episode_metadata_upload_loop:
  "episode_metadata (upload_loop eps) =
     map (\<lambda>ep. \<lparr> em_episode_index = episodeIndex ep, em_tasks = [task_of ep],
                  em_length = length (frames ep) \<rparr>) eps"
  by (simp add: upload_loop_def foldl_upload_episode upload_init_def)

lemma foldl_convert_loop:
  "foldl (\<lambda>rows ep. rows @ episode_rows mk ep) acc eps = acc @ concat (map (episode_rows mk) eps)"
  by (induction eps arbitrary: acc) auto

lemma convert_loop_concat: "convert_loop eps = concat (map (episode_rows convert_row) eps)"
  by (simp add: convert_loop_def foldl_convert_loop)

lemma length_episode_rows: "length (episode_rows mk ep) = length (frames ep)"
  by (simp add: episode_rows_def)

lemma length_concat_episode_rows:
  "length (concat (map (episode_rows mk) eps)) = total_frames_of eps"
  by (induction eps) (auto simp: total_frames_of_def length_episode_rows)

lemma length_upload_rows: "length (all_rows (upload_loop eps)) = total_frames_of eps"
  by (simp add: all_rows_upload_loop length_concat_episode_rows)

lemma length_convert_loop: "length (convert_loop eps) = total_frames_of eps"
  by (simp add: convert_loop_concat length_concat_episode_rows)

lemma episode_rows_frame_index:
  assumes "\<And>i n f. frame_index (mk i n f) = n"
  shows "map frame_index (episode_rows mk ep) = [0..<length (frames ep)]"
proof -
  have "map frame_index (episode_rows mk ep) = map fst (enumerate 0 (frames ep))"
    by (simp add: episode_rows_def assms case_prod_unfold comp_def)
  then show ?thesis by simp
qed

lemma episode_rows_episode_index:
  assumes "\<And>i n f. episode_index (mk i n f) = i"
  shows "map episode_index (episode_rows mk ep) = replicate (length (frames ep)) (episodeIndex ep)"
  by (simp add: episode_rows_def assms case_prod_unfold comp_def map_replicate_const)

subsection \<open>Frame and episode indices\<close>

text \<open>
  Claim C7. In both conversions the rows are the episodes' rows one episode after the
  other; the rows of one episode carry the frame indices \<open>0, 1, ..., len(frames) - 1\<close> in
  the order they are emitted, starting again at 0 with each episode, and every one of them
  carries the episode's own \<^verbatim>\<open>episodeIndex\<close>.
\<close>

theorem frame_index_restarts_per_episode:
  "all_rows (upload_loop eps) = concat (map (episode_rows upload_row) eps)
   \<and> convert_loop eps = concat (map (episode_rows convert_row) eps)
   \<and> map frame_index (episode_rows upload_row ep) = [0..<length (frames ep)]
   \<and> map frame_index (episode_rows convert_row ep) = [0..<length (frames ep)]
   \<and> map episode_index (episode_rows upload_row ep) =
       replicate (length (frames ep)) (episodeIndex ep)
   \<and> map episode_index (episode_rows convert_row ep) =
       replicate (length (frames ep)) (episodeIndex ep)"
  by (simp add: all_rows_upload_loop convert_loop_concat episode_rows_frame_index
      episode_rows_episode_index upload_row_def convert_row_def Let_def)

subsection \<open>No episodes\<close>

text \<open>
  Claim C4. With no episodes the upload conversion does not fail: it writes no table and
  an \<^verbatim>\<open>info.json\<close> with \<open>total_episodes = 0\<close>, \<open>total_frames = 0\<close> and the shape
  \<open>[6]\<close> for both features. The direct conversion raises
  \<^verbatim>\<open>HTTPException(status_code=400, detail="No frames to convert")\<close> on the same
  input (line 346), but inside its own \<^verbatim>\<open>try\<close>: the handler of lines 373-374 catches
  it as any other exception and raises a status 500 with \<^verbatim>\<open>str(e)\<close> as detail. The
  status 400 never leaves the endpoint. Under the handlers of the upload endpoint, which
  re-raise an \<^verbatim>\<open>HTTPException\<close> first, it would.
\<close>

theorem empty_input_status_400_is_lost:
  "upload_convert pa_array set_iter (request \<lparr> episodes := [] \<rparr>) =
     Inr \<lparr> parquet = None,
           info_json = make_info (request \<lparr> episodes := [] \<rparr>) [],
           episodes_jsonl = [],
           tasks_lines = tasks_jsonl set_iter {} \<rparr>
   \<and> total_episodes (make_info (request \<lparr> episodes := [] \<rparr>) []) = 0
   \<and> total_frames (make_info (request \<lparr> episodes := [] \<rparr>) []) = 0
   \<and> shape (feature_observation_state (make_info (request \<lparr> episodes := [] \<rparr>) [])) = [6]
   \<and> shape (feature_action (make_info (request \<lparr> episodes := [] \<rparr>) [])) = [6]
   \<and> convert_body write_table [] = Inl (Http (HTTPException 400 ''No frames to convert''))
   \<and> convert_to_parquet exc_str write_table [] =
       Inl (HTTPException 500 (exc_str (HTTPException 400 ''No frames to convert'')))
   \<and> convert_to_parquet exc_str write_table [] \<noteq> Inl (HTTPException 400 ''No frames to convert'')
   \<and> upload_handlers (convert_body write_table []) =
       Inl (HTTPException 400 ''No frames to convert'')"
  by (simp add: upload_convert_def upload_loop_def upload_init_def upload_table_def make_info_def
      total_frames_of_def shape_of_def convert_to_parquet_def convert_body_def convert_loop_def
      upload_handlers_def)

subsection \<open>The split range\<close>

lemma place_files:
  "upload_convert accept_array ascending (request_of [episode_place]) =
     Inr \<lparr> parquet =
             Some [(''episode_index'', int64, [Scalar_cell (NInt 1), Scalar_cell (NInt 1)]),
                   (''frame_index'', int64, [Scalar_cell (NInt 0), Scalar_cell (NInt 1)]),
                   (''timestamp'', float64,
                      [Scalar_cell (NFloat (Div_30 0)), Scalar_cell (NFloat (Div_30 1))]),
                   (''task_index'', int64, [Scalar_cell (NInt 0), Scalar_cell (NInt 0)])],
           info_json = make_info (request_of [episode_place])
                         (all_rows (upload_loop [episode_place])),
           episodes_jsonl = [\<lparr> em_episode_index = 1, em_tasks = [''place''], em_length = 2 \<rparr>],
           tasks_lines = [(0, ''place'')] \<rparr>"
  by code_simp

text \<open>
  Claim C6, as the code has it. Whenever the upload conversion produces its files,
  \<^verbatim>\<open>splits.train\<close> of \<^verbatim>\<open>info.json\<close> is \<^verbatim>\<open>"0:<total_episodes>"\<close>: the
  number after the colon is the number of episodes (line 237,
  \<^verbatim>\<open>len(request.episodes)\<close>), while \<^verbatim>\<open>total_frames\<close> is the sum of the
  episodes' frame counts.
\<close>

theorem splits_train_counts_episodes:
  "upload_convert pa_array set_iter request = Inr files \<Longrightarrow>
     splits_train (info_json files) = ''0:'' @ str_nat (length (episodes request))
     \<and> total_episodes (info_json files) = length (episodes request)
     \<and> total_frames (info_json files) = total_frames_of (episodes request)"
  by (auto simp: upload_convert_def make_info_def Let_def split: sum.splits)

text \<open>One episode of two frames: the range is \<^verbatim>\<open>0:1\<close>.\<close>

theorem splits_train_counts_episodes_witness:
  "\<exists>files. upload_convert accept_array ascending (request_of [episode_place]) = Inr files
     \<and> splits_train (info_json files) = ''0:1''
     \<and> total_episodes (info_json files) = 1
     \<and> total_frames (info_json files) = 2"
proof -
  have eps: "episodes (request_of [episode_place]) = [episode_place]"
    by (simp add: request_of_def)
  have n: "total_frames_of [episode_place] = 2"
    by (simp add: total_frames_of_def episode_place_def)
  have s: "str_nat (length [episode_place]) = ''1''"
    by (simp add: str_nat.simps digit_char_def)
  from splits_train_counts_episodes [OF place_files] show ?thesis
    using eps n s by (simp add: place_files)
qed

text \<open>
  Claim C6 as the spec states it fails on that input: the episode has two frames, and
  \<^verbatim>\<open>splits.train\<close> is \<^verbatim>\<open>0:1\<close>, not \<^verbatim>\<open>0:2\<close>.
\<close>

theorem splits_train_is_not_frame_range:
  "(case upload_convert accept_array ascending (request_of [episode_place]) of
      Inl e \<Rightarrow> False
    | Inr files \<Rightarrow>
        total_frames (info_json files) = 2
        \<and> splits_train (info_json files) = ''0:1''
        \<and> splits_train (info_json files) \<noteq> ''0:'' @ str_nat (total_frames (info_json files)))"
  by code_simp

subsection \<open>The source of the action\<close>

text \<open>
  Claim C10. In the upload, a frame whose action bag has \<^verbatim>\<open>jointPositions\<close> gets
  that entry as its action, whatever else the bag holds; \<^verbatim>\<open>targetPositions\<close> is the
  action only when \<^verbatim>\<open>jointPositions\<close> is absent. The direct conversion takes the
  action from \<^verbatim>\<open>jointPositions\<close> alone: its row does not depend on the
  \<^verbatim>\<open>targetPositions\<close> entry, and a frame with only that entry has no action.
\<close>

theorem action_prefers_jointPositions:
  "(action f = Some a \<and> a ''jointPositions'' = Some v \<longrightarrow> row_action (upload_row i n f) = Some v)
   \<and> (action f = Some a \<and> a ''jointPositions'' = None \<longrightarrow>
        row_action (upload_row i n f) = a ''targetPositions'')
   \<and> (action f = Some a \<longrightarrow> row_action (convert_row i n f) = a ''jointPositions'')
   \<and> convert_row i n (f \<lparr> action := Some (a(''targetPositions'' := w)) \<rparr>) =
       convert_row i n (f \<lparr> action := Some a \<rparr>)"
  by (simp add: upload_row_def convert_row_def action_of_def obs_of_def timestamp_of_def Let_def)

theorem action_prefers_jointPositions_witness:
  "row_action (upload_row 0 0 frame_both) = Some (Vector [NInt 1])
   \<and> row_action (upload_row 0 0 frame_target) = Some (Vector [NInt 2])
   \<and> row_action (convert_row 0 0 frame_both) = Some (Vector [NInt 1])
   \<and> row_action (convert_row 0 0 frame_target) = None"
  using
    action_prefers_jointPositions
      [of frame_both
          "[''jointPositions'' \<mapsto> Vector [NInt 1], ''targetPositions'' \<mapsto> Vector [NInt 2]]"
          "Vector [NInt 1]" 0 0]
    action_prefers_jointPositions [of frame_target "[''targetPositions'' \<mapsto> Vector [NInt 2]]" v 0 0]
  by (simp add: frame_both_def frame_target_def frame_of_def)

subsection \<open>The response of the direct conversion\<close>








subsection \<open>The task lines\<close>

lemma iteration_order_ascending: "iteration_order ascending"
  by (simp add: iteration_order_def ascending_def)

lemma iteration_order_descending: "iteration_order descending"
  by (simp add: iteration_order_def descending_def)

lemma tasks_jsonl_columns:
  assumes "iteration_order set_iter" and "finite S"
  shows "map snd (tasks_jsonl set_iter S) = set_iter S"
    and "map fst (tasks_jsonl set_iter S) = [0..<card S]"
    and "set (set_iter S) = S"
    and "distinct (set_iter S)"
proof -
  from assms show s: "set (set_iter S) = S" and d: "distinct (set_iter S)"
    by (simp_all add: iteration_order_def)
  show "map snd (tasks_jsonl set_iter S) = set_iter S"
    by (simp add: tasks_jsonl_def)
  have "length (set_iter S) = card S"
    using distinct_card [OF d] s by simp
  then show "map fst (tasks_jsonl set_iter S) = [0..<card S]"
    by (simp add: tasks_jsonl_def)
qed

lemma distinct_singleton_list:
  assumes "distinct xs" and "set xs = {t}"
  shows "xs = [t]"
proof (cases xs)
  case Nil
  with assms show ?thesis by simp
next
  case (Cons a ys)
  with assms have "a = t" and "set ys \<subseteq> {t}" and "t \<notin> set ys" by auto
  then have "ys = []" by (cases ys) auto
  with Cons \<open>a = t\<close> show ?thesis by simp
qed

lemma tasks_jsonl_single:
  assumes "iteration_order set_iter"
  shows "tasks_jsonl set_iter {t} = [(0, t)]"
proof -
  have "set (set_iter {t}) = {t}" and "distinct (set_iter {t})"
    using assms by (simp_all add: iteration_order_def)
  then have "set_iter {t} = [t]" by (simp add: distinct_singleton_list)
  then show ?thesis by (simp add: tasks_jsonl_def)
qed

lemma tasks_jsonl_empty:
  assumes "iteration_order set_iter"
  shows "tasks_jsonl set_iter {} = []"
proof -
  have "set (set_iter {}) = {}" using assms by (simp add: iteration_order_def)
  then show ?thesis by (simp add: tasks_jsonl_def)
qed

lemma upload_convert_Inr:
  assumes "upload_convert pa_array set_iter request = Inr files"
  shows "upload_table pa_array (all_rows (upload_loop (episodes request))) = Inr (parquet files)"
    and "info_json files = make_info request (all_rows (upload_loop (episodes request)))"
    and "episodes_jsonl files = episode_metadata (upload_loop (episodes request))"
    and "tasks_lines files = tasks_jsonl set_iter (task_of ` set (episodes request))"
  using assms
  by (auto simp: upload_convert_def Let_def tasks_upload_loop split: sum.splits)

lemma pick_place_files:
  "upload_convert accept_array descending (request_of [episode_pick, episode_place]) =
     Inr \<lparr> parquet =
             Some [(''episode_index'', int64,
                      [Scalar_cell (NInt 0), Scalar_cell (NInt 1), Scalar_cell (NInt 1)]),
                   (''frame_index'', int64,
                      [Scalar_cell (NInt 0), Scalar_cell (NInt 0), Scalar_cell (NInt 1)]),
                   (''timestamp'', float64,
                      [Scalar_cell (NFloat (Div_30 0)), Scalar_cell (NFloat (Div_30 0)),
                       Scalar_cell (NFloat (Div_30 1))]),
                   (''task_index'', int64,
                      [Scalar_cell (NInt 0), Scalar_cell (NInt 0), Scalar_cell (NInt 0)])],
           info_json = make_info (request_of [episode_pick, episode_place])
                         (all_rows (upload_loop [episode_pick, episode_place])),
           episodes_jsonl =
             [\<lparr> em_episode_index = 0, em_tasks = [''pick''], em_length = 1 \<rparr>,
              \<lparr> em_episode_index = 1, em_tasks = [''place''], em_length = 2 \<rparr>],
           tasks_lines = [(0, ''place''), (1, ''pick'')] \<rparr>"
  by code_simp

text \<open>
  Claim C1, as the code has it. Whenever the upload conversion produces its files,
  \<^verbatim>\<open>tasks.jsonl\<close> has one line for each distinct task text and its
  \<^verbatim>\<open>task_index\<close> values are \<open>0, 1, ..., n - 1\<close> from the first line to the last.
  Which text stands on which line is the order in which Python iterates the set
  \<^verbatim>\<open>tasks\<close>; the code keeps no record of the order in which the texts were seen.
\<close>

theorem tasks_jsonl_follows_set_iteration:
  "iteration_order set_iter \<Longrightarrow> upload_convert pa_array set_iter request = Inr files \<Longrightarrow>
     map snd (tasks_lines files) = set_iter (task_of ` set (episodes request))
     \<and> set (map snd (tasks_lines files)) = task_of ` set (episodes request)
     \<and> distinct (map snd (tasks_lines files))
     \<and> map fst (tasks_lines files) = [0..<card (task_of ` set (episodes request))]"
  using tasks_jsonl_columns [of set_iter "task_of ` set (episodes request)"]
  by (simp add: upload_convert_Inr(4))

theorem tasks_jsonl_follows_set_iteration_witness:
  "iteration_order descending
   \<and> (\<exists>files. upload_convert accept_array descending (request_of [episode_pick, episode_place]) = Inr files
        \<and> map snd (tasks_lines files) = [''place'', ''pick'']
        \<and> map fst (tasks_lines files) = [0, 1])"
  using tasks_jsonl_follows_set_iteration [OF iteration_order_descending pick_place_files]
    iteration_order_descending
  by (simp add: pick_place_files)

text \<open>
  Claim C1 as the spec states it fails when the set is iterated in another order than
  the texts were added: the episodes carry \<^verbatim>\<open>pick\<close> then \<^verbatim>\<open>place\<close>, and a run
  that iterates the set in descending order writes \<^verbatim>\<open>place\<close> with index 0 and
  \<^verbatim>\<open>pick\<close> with index 1.
\<close>

theorem tasks_jsonl_not_first_seen:
  "map task_of [episode_pick, episode_place] = [''pick'', ''place'']
   \<and> (case upload_convert accept_array descending (request_of [episode_pick, episode_place]) of
        Inl e \<Rightarrow> False
      | Inr files \<Rightarrow> tasks_lines files = [(0, ''place''), (1, ''pick'')])"
  by code_simp

subsection \<open>The task index of a row\<close>

lemma upload_row_task_index: "task_index (upload_row i n f) = Some 0"
  by (simp add: upload_row_def Let_def)

lemma upload_rows_task_index: "r \<in> set (all_rows (upload_loop eps)) \<Longrightarrow> task_index r = Some 0"
  by (auto simp: all_rows_upload_loop episode_rows_def upload_row_task_index)

text \<open>
  Claim C2, as the code has it. Every row of the upload carries \<^verbatim>\<open>task_index\<close> 0
  (line 148, \<^verbatim>\<open>"task_index": 0,  # Single task for now\<close>), whatever the task text of
  its episode. When all episodes have the same task text, \<^verbatim>\<open>tasks.jsonl\<close> is the
  single line with index 0 and that text, so the two agree.
\<close>

theorem task_index_is_zero:
  "(r \<in> set (all_rows (upload_loop eps)) \<longrightarrow> task_index r = Some 0)
   \<and> (iteration_order set_iter \<and> eps \<noteq> [] \<and> (\<forall>ep \<in> set eps. task_of ep = t) \<longrightarrow>
        tasks_jsonl set_iter (tasks (upload_loop eps)) = [(0, t)])"
proof (intro conjI impI)
  assume "r \<in> set (all_rows (upload_loop eps))"
  then show "task_index r = Some 0" by (rule upload_rows_task_index)
next
  assume a: "iteration_order set_iter \<and> eps \<noteq> [] \<and> (\<forall>ep \<in> set eps. task_of ep = t)"
  then have "task_of ` set eps = {t}" by (cases eps) auto
  with a show "tasks_jsonl set_iter (tasks (upload_loop eps)) = [(0, t)]"
    by (simp add: tasks_upload_loop tasks_jsonl_single)
qed

theorem task_index_is_zero_witness:
  "map task_index (all_rows (upload_loop [episode_place])) = [Some 0, Some 0]
   \<and> tasks_jsonl descending (tasks (upload_loop [episode_place])) = [(0, ''place'')]"
proof -
  have rows: "all_rows (upload_loop [episode_place]) =
      [upload_row 1 0 frame_plain, upload_row 1 1 frame_plain]"
    by (simp add: all_rows_upload_loop episode_rows_def episode_place_def)
  have t: "\<forall>ep \<in> set [episode_place]. task_of ep = ''place''"
    by (simp add: task_of_def episode_place_def)
  from task_index_is_zero [of "upload_row 1 0 frame_plain" "[episode_place]" descending "''place''"]
       task_index_is_zero [of "upload_row 1 1 frame_plain" "[episode_place]" descending "''place''"]
       iteration_order_descending t
  show ?thesis by (simp add: rows)
qed

text \<open>
  Claim C2 as the spec states it fails as soon as there are two task texts. The episodes
  carry \<^verbatim>\<open>pick\<close> and \<^verbatim>\<open>place\<close>; all three rows have \<^verbatim>\<open>task_index\<close> 0, while
  \<^verbatim>\<open>tasks.jsonl\<close> gives index 1 to one of the two texts, in either order of
  iteration.
\<close>

theorem task_index_ignores_task_text:
  "map task_of [episode_pick, episode_place] = [''pick'', ''place'']
   \<and> map task_index (all_rows (upload_loop [episode_pick, episode_place])) =
       [Some 0, Some 0, Some 0]
   \<and> tasks_jsonl ascending (tasks (upload_loop [episode_pick, episode_place])) =
       [(0, ''pick''), (1, ''place'')]
   \<and> tasks_jsonl descending (tasks (upload_loop [episode_pick, episode_place])) =
       [(0, ''place''), (1, ''pick'')]"
  by code_simp

subsection \<open>Two runs\<close>

text \<open>
  Claim C8, as the code has it. Two runs of the upload conversion on the same request,
  each with its own iteration order of the task set, write the same table (so the same
  \<^verbatim>\<open>task_index\<close> on every row), the same \<^verbatim>\<open>info.json\<close> and the same
  \<^verbatim>\<open>episodes.jsonl\<close>; their \<^verbatim>\<open>tasks.jsonl\<close> files have the same indices and
  the same texts. The two \<^verbatim>\<open>tasks.jsonl\<close> are the same line for line when both runs
  iterate the set in the same order, and in any case when there is at most one task text.
\<close>

theorem two_runs_differ_only_in_task_order:
  "iteration_order iter1 \<Longrightarrow> iteration_order iter2 \<Longrightarrow>
   upload_convert pa_array iter1 request = Inr files1 \<Longrightarrow>
   upload_convert pa_array iter2 request = Inr files2 \<Longrightarrow>
     parquet files1 = parquet files2
     \<and> info_json files1 = info_json files2
     \<and> episodes_jsonl files1 = episodes_jsonl files2
     \<and> map fst (tasks_lines files1) = map fst (tasks_lines files2)
     \<and> set (map snd (tasks_lines files1)) = set (map snd (tasks_lines files2))
     \<and> (iter1 (task_of ` set (episodes request)) = iter2 (task_of ` set (episodes request)) \<longrightarrow>
          tasks_lines files1 = tasks_lines files2)
     \<and> (card (task_of ` set (episodes request)) \<le> 1 \<longrightarrow> tasks_lines files1 = tasks_lines files2)"
proof -
  assume i1: "iteration_order iter1" and i2: "iteration_order iter2"
    and f1: "upload_convert pa_array iter1 request = Inr files1"
    and f2: "upload_convert pa_array iter2 request = Inr files2"
  let ?S = "task_of ` set (episodes request)"
  have fin: "finite ?S" by simp
  have t1: "tasks_lines files1 = tasks_jsonl iter1 ?S" by (rule upload_convert_Inr(4) [OF f1])
  have t2: "tasks_lines files2 = tasks_jsonl iter2 ?S" by (rule upload_convert_Inr(4) [OF f2])
  have p: "parquet files1 = parquet files2"
    using upload_convert_Inr(1) [OF f1] upload_convert_Inr(1) [OF f2] by simp
  have i: "info_json files1 = info_json files2"
    using upload_convert_Inr(2) [OF f1] upload_convert_Inr(2) [OF f2] by simp
  have e: "episodes_jsonl files1 = episodes_jsonl files2"
    using upload_convert_Inr(3) [OF f1] upload_convert_Inr(3) [OF f2] by simp
  have a: "map fst (tasks_lines files1) = map fst (tasks_lines files2)"
    by (simp add: t1 t2 tasks_jsonl_columns(2) [OF i1 fin] tasks_jsonl_columns(2) [OF i2 fin])
  have b: "set (map snd (tasks_lines files1)) = set (map snd (tasks_lines files2))"
    by (simp add: t1 t2 tasks_jsonl_columns(1) [OF i1 fin] tasks_jsonl_columns(1) [OF i2 fin]
        tasks_jsonl_columns(3) [OF i1 fin] tasks_jsonl_columns(3) [OF i2 fin])
  have c: "iter1 ?S = iter2 ?S \<longrightarrow> tasks_lines files1 = tasks_lines files2"
    by (simp add: t1 t2 tasks_jsonl_def)
  have d: "card ?S \<le> 1 \<longrightarrow> tasks_lines files1 = tasks_lines files2"
  proof
    assume "card ?S \<le> 1"
    then have "?S = {} \<or> (\<exists>t. ?S = {t})"
      using fin by (metis card_1_singletonE card_eq_0_iff le_neq_implies_less less_one)
    then show "tasks_lines files1 = tasks_lines files2"
    proof
      assume "?S = {}"
      then show ?thesis by (simp add: t1 t2 tasks_jsonl_empty [OF i1] tasks_jsonl_empty [OF i2])
    next
      assume "\<exists>t. ?S = {t}"
      then obtain t where "?S = {t}" ..
      then show ?thesis by (simp add: t1 t2 tasks_jsonl_single [OF i1] tasks_jsonl_single [OF i2])
    qed
  qed
  from p i e a b c d show ?thesis by blast
qed

lemma pick_place_files_ascending:
  "upload_convert accept_array ascending (request_of [episode_pick, episode_place]) =
     Inr \<lparr> parquet =
             Some [(''episode_index'', int64,
                      [Scalar_cell (NInt 0), Scalar_cell (NInt 1), Scalar_cell (NInt 1)]),
                   (''frame_index'', int64,
                      [Scalar_cell (NInt 0), Scalar_cell (NInt 0), Scalar_cell (NInt 1)]),
                   (''timestamp'', float64,
                      [Scalar_cell (NFloat (Div_30 0)), Scalar_cell (NFloat (Div_30 0)),
                       Scalar_cell (NFloat (Div_30 1))]),
                   (''task_index'', int64,
                      [Scalar_cell (NInt 0), Scalar_cell (NInt 0), Scalar_cell (NInt 0)])],
           info_json = make_info (request_of [episode_pick, episode_place])
                         (all_rows (upload_loop [episode_pick, episode_place])),
           episodes_jsonl =
             [\<lparr> em_episode_index = 0, em_tasks = [''pick''], em_length = 1 \<rparr>,
              \<lparr> em_episode_index = 1, em_tasks = [''place''], em_length = 2 \<rparr>],
           tasks_lines = [(0, ''pick''), (1, ''place'')] \<rparr>"
  by code_simp

text \<open>One run in ascending order, one in descending order.\<close>

theorem two_runs_differ_only_in_task_order_witness:
  "iteration_order ascending \<and> iteration_order descending
   \<and> (\<exists>files1 files2.
        upload_convert accept_array ascending (request_of [episode_pick, episode_place]) = Inr files1
        \<and> upload_convert accept_array descending (request_of [episode_pick, episode_place]) = Inr files2
        \<and> parquet files1 = parquet files2
        \<and> info_json files1 = info_json files2
        \<and> episodes_jsonl files1 = episodes_jsonl files2
        \<and> map fst (tasks_lines files1) = map fst (tasks_lines files2)
        \<and> set (map snd (tasks_lines files1)) = set (map snd (tasks_lines files2)))"
  using two_runs_differ_only_in_task_order [OF iteration_order_ascending iteration_order_descending
             pick_place_files_ascending pick_place_files]
    iteration_order_ascending iteration_order_descending
    pick_place_files_ascending pick_place_files
  by blast

text \<open>
  Claim C8 as the spec states it fails for two runs that iterate the set in different
  orders: on the episodes \<^verbatim>\<open>pick\<close>, \<^verbatim>\<open>place\<close> one writes \<^verbatim>\<open>pick\<close> first and
  the other \<^verbatim>\<open>place\<close>.
\<close>

theorem two_runs_can_differ_in_tasks_jsonl:
  "(case (upload_convert accept_array ascending (request_of [episode_pick, episode_place]),
          upload_convert accept_array descending (request_of [episode_pick, episode_place])) of
      (Inr files1, Inr files2) \<Rightarrow>
        tasks_lines files1 = [(0, ''pick''), (1, ''place'')]
        \<and> tasks_lines files2 = [(0, ''place''), (1, ''pick'')]
        \<and> tasks_lines files1 \<noteq> tasks_lines files2
    | _ \<Rightarrow> False)"
  by code_simp

subsection \<open>The columns\<close>



lemma for_each_append_cell:
  "distinct (map fst fs) \<Longrightarrow> for_each (append_cell r) cols fs = Inr cols' \<Longrightarrow>
     cols' name =
       (if name \<in> fst ` set fs
        then map_option (\<lambda>col. col @ [projr (cell_of r name)]) (cols name)
        else cols name)
     \<and> (name \<in> fst ` set fs \<and> cols name \<noteq> None \<longrightarrow> \<not> isl (cell_of r name))"
proof (induction fs arbitrary: cols)
  case Nil
  then show ?case by simp
next
  case (Cons f fs)
  from Cons.prems(1) have d: "distinct (map fst fs)" and n: "fst f \<notin> fst ` set fs" by auto
  from Cons.prems(2) obtain cols1 where
    step: "append_cell r cols f = Inr cols1" and
    rest: "for_each (append_cell r) cols1 fs = Inr cols'"
    by (auto split: sum.splits)
  note ih = Cons.IH [OF d rest]
  show ?case
  proof (cases "name = fst f")
    case True
    with n have out: "name \<notin> fst ` set fs" by simp
    with ih have same: "cols' name = cols1 name" by simp
    show ?thesis
    proof (cases "cols name")
      case None
      with step True have "cols1 name = None" by (simp add: append_cell_def)
      with same None True show ?thesis by simp
    next
      case (Some col)
      with step True obtain c where c: "cell_of r name = Inr c"
        and "cols1 = cols(name \<mapsto> col @ [c])"
        by (auto simp: append_cell_def split: sum.splits)
      with same Some True show ?thesis by simp
    qed
  next
    case False
    with step have "cols1 name = cols name"
      by (auto simp: append_cell_def split: option.splits sum.splits)
    with ih False show ?thesis by simp
  qed
qed

lemma for_each_rows:
  "distinct (map fst fs) \<Longrightarrow>
   for_each (\<lambda>cols r. for_each (append_cell r) cols fs) cols rows = Inr cols' \<Longrightarrow>
     cols' name =
       (if name \<in> fst ` set fs
        then map_option (\<lambda>col. col @ map (\<lambda>r. projr (cell_of r name)) rows) (cols name)
        else cols name)
     \<and> (name \<in> fst ` set fs \<and> cols name \<noteq> None \<longrightarrow> (\<forall>r \<in> set rows. \<not> isl (cell_of r name)))"
proof (induction rows arbitrary: cols)
  case Nil
  then show ?case by (simp add: option.map_ident)
next
  case (Cons r rows)
  from Cons.prems(2) obtain cols1 where
    step: "for_each (append_cell r) cols fs = Inr cols1" and
    rest: "for_each (\<lambda>cols r. for_each (append_cell r) cols fs) cols1 rows = Inr cols'"
    by (auto split: sum.splits)
  note one = for_each_append_cell [OF Cons.prems(1) step, of name]
  note ih = Cons.IH [OF Cons.prems(1) rest]
  show ?case
  proof (cases "name \<in> fst ` set fs")
    case False
    with one ih show ?thesis by simp
  next
    case True
    show ?thesis
    proof (cases "cols name")
      case None
      with one ih True show ?thesis by simp
    next
      case (Some col)
      with one True have c1: "cols1 name = Some (col @ [projr (cell_of r name)])"
        and ok: "\<not> isl (cell_of r name)" by simp_all
      with ih True Some show ?thesis by simp
    qed
  qed
qed

lemma empty_columns_apply:
  "empty_columns fs name = (if name \<in> fst ` set fs then Some [] else None)"
  by (induction fs) (auto simp: empty_columns_def)

lemma build_columns_apply:
  assumes "distinct (map fst fs)" and "build_columns fs rows = Inr cols"
  shows "cols name =
      (if name \<in> fst ` set fs then Some (map (\<lambda>r. projr (cell_of r name)) rows) else None)"
    and "name \<in> fst ` set fs \<Longrightarrow> r \<in> set rows \<Longrightarrow> \<not> isl (cell_of r name)"
  using for_each_rows [OF assms(1) assms(2) [unfolded build_columns_def], of name]
  by (simp_all add: empty_columns_apply)

lemma distinct_schema_fields: "distinct (map fst (schema_fields_of r))"
  by (simp add: schema_fields_of_def Let_def split: option.splits)

lemma upload_columns_cells:
  assumes "build_columns (schema_fields_of r) rows = Inr cols" and "cols name = Some col"
  shows "map (\<lambda>x. cell_of x name) rows = map Inr col"
proof -
  note a = build_columns_apply [OF distinct_schema_fields assms(1), of name]
  from a(1) assms(2) have n: "name \<in> fst ` set (schema_fields_of r)"
    and col: "col = map (\<lambda>x. projr (cell_of x name)) rows"
    by (simp_all split: if_splits)
  have "\<And>x. x \<in> set rows \<Longrightarrow> cell_of x name = Inr (projr (cell_of x name))"
    using a(2) [OF n] by (simp add: sum.collapse(2))
  with col show ?thesis by simp
qed

lemma convert_columns_length:
  "convert_columns rows r name = Some col \<Longrightarrow> length col = length rows"
  by (auto simp: convert_columns_def Let_def split: if_splits)

text \<open>
  Claim C5, as the code has it. When there is at least one row, every column that either
  conversion builds has one entry for each frame of all episodes. In the upload, the entry
  of a row is the row's value under the column's name, and \<^verbatim>\<open>None\<close> when the row has
  no such key. In the direct conversion the vector columns are built with
  \<^verbatim>\<open>r.get(name, [])\<close>: a row without the vector puts the empty list there.
\<close>

theorem columns_have_one_entry_per_frame:
  "(all_rows (upload_loop eps) = r # rest
      \<and> build_columns (schema_fields_of r) (r # rest) = Inr cols \<and> cols name = Some col \<longrightarrow>
        length col = total_frames_of eps \<and> map (\<lambda>x. cell_of x name) (r # rest) = map Inr col)
   \<and> (row_get x name = None \<longrightarrow> cell_of x name = Inr Null)
   \<and> (convert_loop eps = r # rest \<and> convert_columns (r # rest) r name = Some pcol \<longrightarrow>
        length pcol = total_frames_of eps)
   \<and> (convert_loop eps = r # rest
      \<and> convert_columns (r # rest) r ''observation.state'' = Some pcol \<longrightarrow>
        pcol = map (\<lambda>x. get_or_empty (observation_state x)) (r # rest))
   \<and> (convert_loop eps = r # rest \<and> convert_columns (r # rest) r ''action'' = Some pcol \<longrightarrow>
        pcol = map (\<lambda>x. get_or_empty (row_action x)) (r # rest))
   \<and> get_or_empty None = Field (Vector [])"
proof (intro conjI impI)
  assume a: "all_rows (upload_loop eps) = r # rest
      \<and> build_columns (schema_fields_of r) (r # rest) = Inr cols \<and> cols name = Some col"
  then have b: "build_columns (schema_fields_of r) (r # rest) = Inr cols"
    and n: "cols name = Some col"
    by simp_all
  note c = upload_columns_cells [OF b n]
  then have "length col = length (r # rest)"
    by (metis length_map)
  moreover have "length (r # rest) = total_frames_of eps"
    using a length_upload_rows [of eps] by simp
  ultimately show "length col = total_frames_of eps" by simp
  from c show "map (\<lambda>x. cell_of x name) (r # rest) = map Inr col" .
next
  assume "row_get x name = None"
  then show "cell_of x name = Inr Null" by (simp add: cell_of_def)
next
  assume a: "convert_loop eps = r # rest \<and> convert_columns (r # rest) r name = Some pcol"
  then have "length pcol = length (r # rest)" by (auto dest: convert_columns_length)
  with a show "length pcol = total_frames_of eps"
    using length_convert_loop [of eps] by simp
next
  assume "convert_loop eps = r # rest
      \<and> convert_columns (r # rest) r ''observation.state'' = Some pcol"
  then show "pcol = map (\<lambda>x. get_or_empty (observation_state x)) (r # rest)"
    by (auto simp: convert_columns_def Let_def split: if_splits)
next
  assume "convert_loop eps = r # rest \<and> convert_columns (r # rest) r ''action'' = Some pcol"
  then show "pcol = map (\<lambda>x. get_or_empty (row_action x)) (r # rest)"
    by (auto simp: convert_columns_def Let_def split: if_splits)
next
  show "get_or_empty None = Field (Vector [])" by (simp add: get_or_empty_def)
qed

lemma gap_upload_rows:
  "all_rows (upload_loop [episode_gap]) =
     [upload_row 0 0 (frame_state [NInt 1]), upload_row 0 1 frame_plain]"
  by (simp add: all_rows_upload_loop episode_rows_def episode_gap_def)

lemma gap_convert_rows:
  "convert_loop [episode_gap] =
     [convert_row 0 0 (frame_state [NInt 1]), convert_row 0 1 frame_plain]"
  by (simp add: convert_loop_concat episode_rows_def episode_gap_def)

lemma gap_upload_column:
  "map_sum id (\<lambda>cols. cols ''observation.state'')
     (build_columns (schema_fields_of (upload_row 0 0 (frame_state [NInt 1])))
        [upload_row 0 0 (frame_state [NInt 1]), upload_row 0 1 frame_plain]) =
   Inr (Some [Floats [Float_of_int 1], Null])"
  by code_simp

lemma gap_convert_column:
  "convert_columns [convert_row 0 0 (frame_state [NInt 1]), convert_row 0 1 frame_plain]
     (convert_row 0 0 (frame_state [NInt 1])) ''observation.state'' =
   Some [Field (Vector [NInt 1]), Field (Vector [])]"
  by code_simp

text \<open>An episode whose first frame has a state vector and whose second has none.\<close>

theorem columns_have_one_entry_per_frame_witness:
  "total_frames_of [episode_gap] = 2
   \<and> map_sum id (\<lambda>cols. cols ''observation.state'')
        (build_columns (schema_fields_of (upload_row 0 0 (frame_state [NInt 1])))
           [upload_row 0 0 (frame_state [NInt 1]), upload_row 0 1 frame_plain]) =
      Inr (Some [Floats [Float_of_int 1], Null])
   \<and> length [Floats [Float_of_int 1], Null] = total_frames_of [episode_gap]
   \<and> convert_columns [convert_row 0 0 (frame_state [NInt 1]), convert_row 0 1 frame_plain]
        (convert_row 0 0 (frame_state [NInt 1])) ''observation.state'' =
      Some [Field (Vector [NInt 1]), Field (Vector [])]
   \<and> length [Field (Vector [NInt 1]), Field (Vector [])] = total_frames_of [episode_gap]"
proof -
  let ?r = "upload_row 0 0 (frame_state [NInt 1])"
  let ?rest = "[upload_row 0 1 frame_plain]"
  have n: "total_frames_of [episode_gap] = 2"
    by (simp add: total_frames_of_def episode_gap_def)
  obtain cols where b: "build_columns (schema_fields_of ?r) (?r # ?rest) = Inr cols"
    and c: "cols ''observation.state'' = Some [Floats [Float_of_int 1], Null]"
    using gap_upload_column
    by (cases "build_columns (schema_fields_of ?r) (?r # ?rest)") auto
  from columns_have_one_entry_per_frame [of "[episode_gap]" ?r ?rest cols "''observation.state''"
             "[Floats [Float_of_int 1], Null]" x]
       columns_have_one_entry_per_frame [of "[episode_gap]" "convert_row 0 0 (frame_state [NInt 1])"
             "[convert_row 0 1 frame_plain]" cols "''observation.state''" col x
             "[Field (Vector [NInt 1]), Field (Vector [])]"]
       n b c gap_upload_rows gap_convert_rows gap_upload_column gap_convert_column
  show ?thesis by simp
qed

text \<open>
  Claim C5 as the spec states it fails in the direct conversion: for the second frame,
  which has no state vector, the column holds the empty list and not a null. The upload
  holds a null at that place.
\<close>

theorem absent_vector_is_empty_list_in_direct_columns:
  "(case convert_loop [episode_gap] of
      [] \<Rightarrow> False
    | r # rest \<Rightarrow>
        map observation_state (r # rest) = [Some (Vector [NInt 1]), None]
        \<and> convert_columns (r # rest) r ''observation.state'' =
            Some [Field (Vector [NInt 1]), Field (Vector [])])
   \<and> (case all_rows (upload_loop [episode_gap]) of
      [] \<Rightarrow> False
    | r # rest \<Rightarrow>
        map observation_state (r # rest) = [Some (Vector [NInt 1]), None]
        \<and> map_sum id (\<lambda>cols. cols ''observation.state'')
             (build_columns (schema_fields_of r) (r # rest)) =
            Inr (Some [Floats [Float_of_int 1], Null]))"
  by code_simp

subsection \<open>Vectors of another length\<close>























lemma mismatch_rejected:
  "upload_convert (length_checking ''ArrowInvalid'') ascending (request_of [episode_mismatch]) =
     Inl (HTTPException 500 ''ArrowInvalid'')"
  by code_simp

lemma huge_rejected:
  "upload_convert (length_checking ''ArrowInvalid'') ascending (request_of [episode_huge]) =
     Inl (HTTPException 500 ''int too large to convert to float'')"
  by code_simp

lemma match_table:
  "upload_table (length_checking ''ArrowInvalid'') (all_rows (upload_loop [episode_match])) =
     Inr (Some [(''episode_index'', int64, [Scalar_cell (NInt 0), Scalar_cell (NInt 0)]),
                (''frame_index'', int64, [Scalar_cell (NInt 0), Scalar_cell (NInt 1)]),
                (''timestamp'', float64,
                   [Scalar_cell (NFloat (Div_30 0)), Scalar_cell (NFloat (Div_30 1))]),
                (''task_index'', int64, [Scalar_cell (NInt 0), Scalar_cell (NInt 0)]),
                (''observation.state'', list_float32 2,
                   [Floats [Float_of_int 1, Float_of_int 2],
                    Floats [Float_of_int 3, Float_of_int 4]])])"
  by code_simp








end
